theory Spec2Isabelle
  imports Complex_Main
begin

section \<open>Data model\<close>

text \<open>
  The payload of the \<open>createTask\<close> tool and the task record of the application
  (\<open>types.ts\<close>). Optional fields are options. The priority of a task is declared as one of
  three literals, but \<open>handleCreateTask\<close> stores the payload's string through an unchecked
  cast, so the model keeps it a string.
\<close>

record TaskToolArgs =
  title :: string
  date :: "string option"
  time :: "string option"
  priority :: "string option"

datatype task_status = Pending | Completed

record Task =
  task_id :: string
  task_title :: string
  task_date :: "string option"
  task_time :: "string option"
  task_priority :: string
  task_status :: task_status
  createdAt :: int

text \<open>
  Handles of the browser and SDK objects the hook holds in its refs. Only their identity
  matters here.
\<close>

type_synonym audio_context = nat
type_synonym media_stream = nat
type_synonym processor = nat
type_synonym session = nat

text \<open>
  A buffer source node: the object created by \<open>ctx.createBufferSource()\<close> together with
  the duration of the decoded buffer assigned to it.
\<close>

record source_node =
  node_id :: nat
  buffer_duration :: real

text \<open>One function call of an inbound tool-call message, and the inbound message itself:
  its function calls, when it has a \<open>toolCall\<close>, and the base64 audio of the first part of
  the model turn, when there is one.\<close>

record function_call =
  fc_id :: string
  fc_name :: string
  fc_args :: TaskToolArgs

record message =
  toolCall :: "function_call list option"
  base64Audio :: "string option"

text \<open>
  The state of \<open>useLiveManager\<close>: the three React state variables and the seven refs.
  Times are JavaScript numbers. They are carried as reals; comparison and maximum are
  exact on doubles, and the one addition the hook performs on them is a parameter of the
  model.
\<close>

record manager =
  isConnected :: bool
  isTalking :: bool
  volume :: real
  audioContextRef :: "audio_context option"
  inputContextRef :: "audio_context option"
  nextStartTimeRef :: real
  sourcesRef :: "source_node set"
  sessionPromiseRef :: "session option"
  processorRef :: "processor option"
  streamRef :: "media_stream option"

text \<open>The steps of \<open>connect\<close>, in source order, each of which may throw.\<close>

datatype connect_step =
    NewGenAI
  | NewOutputContext
  | NewInputContext
  | GetUserMedia
  | CreateInputNodes
  | CreateAnalyser
  | LiveConnect
  | WireProcessor

text \<open>
  What the hook does to the outside world, in program order. Calls queued on the session
  promise (\<open>sessionPromise.then\<close>) are recorded where they are queued.
\<close>

datatype effect =
    SessionClose session
  | TrackStop media_stream
  | ProcessorDisconnect processor
  | ContextClose audio_context
  | ConsoleLog string
  | ConsoleError string
  | OnTaskCreated TaskToolArgs
  | SendToolResponse session string string string
  | SourceStart audio_context source_node real
  | Acquired connect_step nat

section \<open>The hook\<close>

text \<open>The state at mount: \<open>useState(false)\<close>, \<open>useState(0)\<close>, \<open>useRef(null)\<close>,
  \<open>useRef(0)\<close>, \<open>useRef(new Set())\<close>.\<close>

definition idle :: manager where
  "idle = \<lparr> isConnected = False, isTalking = False, volume = 0,
            audioContextRef = None, inputContextRef = None, nextStartTimeRef = 0,
            sourcesRef = {}, sessionPromiseRef = None, processorRef = None,
            streamRef = None \<rparr>"

text \<open>
  \<open>disconnect\<close>: each held resource is released and its ref set to null, then the state is
  cleared. None of the calls throws synchronously (\<open>then\<close>, \<open>stop\<close>, \<open>disconnect\<close>, and
  \<open>close\<close>, which returns a promise), so the function has no error branch.
\<close>

definition release :: "('a \<Rightarrow> effect) \<Rightarrow> 'a option \<Rightarrow> effect list" where
  "release f r = (case r of None \<Rightarrow> [] | Some x \<Rightarrow> [f x])"

definition disconnect :: "manager \<Rightarrow> effect list \<times> manager" where
  "disconnect m =
     (release SessionClose (sessionPromiseRef m)
        @ release TrackStop (streamRef m)
        @ release ProcessorDisconnect (processorRef m)
        @ release ContextClose (inputContextRef m)
        @ release ContextClose (audioContextRef m),
      m \<lparr> streamRef := None, processorRef := None, inputContextRef := None,
          audioContextRef := None, sessionPromiseRef := None, isConnected := False,
          isTalking := False, volume := 0, sourcesRef := {}, nextStartTimeRef := 0 \<rparr>)"

text \<open>
  \<open>connect\<close>. What the environment hands to one call: the step that throws, if any, and
  the fresh objects the successful steps produce. \<open>perform\<close> is the assignment a
  successful step makes; a throwing step makes none. The body runs inside \<open>try\<close>: the
  first throwing step logs the failure and calls \<open>disconnect\<close>. The call is taken as one
  atomic step, the suspension at \<open>getUserMedia\<close> included: the guard comes before the
  suspension, and past the guard the call touches the cursor, the talking flag and the
  active set through \<open>disconnect\<close> only.
\<close>

record connect_env =
  fails_at :: "connect_step option"
  new_output_ctx :: audio_context
  new_input_ctx :: audio_context
  new_stream :: media_stream
  new_processor :: processor
  new_session :: session

fun perform :: "connect_env \<Rightarrow> connect_step \<Rightarrow> manager \<Rightarrow> effect list \<times> manager" where
  "perform env NewGenAI m = ([], m)"
| "perform env NewOutputContext m =
     ([Acquired NewOutputContext (new_output_ctx env)],
      m \<lparr> audioContextRef := Some (new_output_ctx env) \<rparr>)"
| "perform env NewInputContext m =
     ([Acquired NewInputContext (new_input_ctx env)],
      m \<lparr> inputContextRef := Some (new_input_ctx env) \<rparr>)"
| "perform env GetUserMedia m =
     ([Acquired GetUserMedia (new_stream env)], m \<lparr> streamRef := Some (new_stream env) \<rparr>)"
| "perform env CreateInputNodes m =
     ([Acquired CreateInputNodes (new_processor env)],
      m \<lparr> processorRef := Some (new_processor env) \<rparr>)"
| "perform env CreateAnalyser m = ([], m)"
| "perform env LiveConnect m =
     ([Acquired LiveConnect (new_session env)],
      m \<lparr> sessionPromiseRef := Some (new_session env) \<rparr>)"
| "perform env WireProcessor m = ([], m)"

definition connect_steps :: "connect_step list" where
  "connect_steps = [NewGenAI, NewOutputContext, NewInputContext, GetUserMedia,
                    CreateInputNodes, CreateAnalyser, LiveConnect, WireProcessor]"

fun try_steps :: "connect_env \<Rightarrow> connect_step list \<Rightarrow> manager \<Rightarrow> effect list \<times> manager \<times> bool" where
  "try_steps env [] m = ([], m, True)"
| "try_steps env (s # ss) m =
     (if fails_at env = Some s then ([], m, False)
      else (case perform env s m of (es, m') \<Rightarrow>
              (case try_steps env ss m' of (es', m'', ok) \<Rightarrow> (es @ es', m'', ok))))"

definition connect :: "connect_env \<Rightarrow> manager \<Rightarrow> effect list \<times> manager" where
  "connect env m =
     (if isConnected m then ([], m)
      else (case try_steps env connect_steps m of (es, m', ok) \<Rightarrow>
              if ok then (es, m')
              else (case disconnect m' of (ds, m'') \<Rightarrow>
                      (es @ ConsoleError ''Failed to connect:'' # ds, m''))))"

text \<open>
  Tool dispatch, the loop over \<open>message.toolCall.functionCalls\<close>. The external callback
  \<open>onTaskCreated\<close> is a parameter: it takes the payload and the application state and
  either returns or raises. A raise is not caught anywhere in \<open>onmessage\<close>: it ends the
  handler, so the loop stops and the audio part of the message is not reached.
\<close>

datatype 'app cb_result = Returned 'app | Raised 'app

datatype completion = Finished | Aborted

fun dispatch :: "(TaskToolArgs \<Rightarrow> 'app \<Rightarrow> 'app cb_result) \<Rightarrow> session \<Rightarrow> function_call list
                   \<Rightarrow> 'app \<Rightarrow> effect list \<times> 'app \<times> completion" where
  "dispatch cb sess [] a = ([], a, Finished)"
| "dispatch cb sess (fc # fcs) a =
     (if fc_name fc = ''createTask'' then
        (case cb (fc_args fc) a of
           Raised a' \<Rightarrow>
             ([ConsoleLog ''Tool call received:'', OnTaskCreated (fc_args fc)], a', Aborted)
         | Returned a' \<Rightarrow>
             (case dispatch cb sess fcs a' of (es, a'', c) \<Rightarrow>
                (ConsoleLog ''Tool call received:'' # OnTaskCreated (fc_args fc)
                   # SendToolResponse sess (fc_id fc) (fc_name fc) ''Task created successfully''
                   # es, a'', c)))
      else dispatch cb sess fcs a)"

text \<open>
  The audio branch of \<open>onmessage\<close> is suspended at \<open>await decodeAudioData(...)\<close>, and
  other handlers run before it resumes. It is modelled as the two halves it has.

  The first half runs in the message handler: the talking flag is set, the context is
  read from the ref, and the cursor is raised to the output clock \<open>now\<close>
  (\<open>ctx.currentTime\<close>). It leaves a suspended continuation that holds the context.
\<close>

definition begin_audio :: "string option \<Rightarrow> real \<Rightarrow> manager \<Rightarrow> audio_context option \<times> manager" where
  "begin_audio audio now m =
     (case audio of
        None \<Rightarrow> (None, m)
      | Some d \<Rightarrow>
          (case audioContextRef m of
             None \<Rightarrow> (None, m)
           | Some ctx \<Rightarrow>
               if d = [] then (None, m)
               else (Some ctx, m \<lparr> isTalking := True,
                                    nextStartTimeRef := max (nextStartTimeRef m) now \<rparr>)))"

text \<open>
  The second half runs when the decoder settles. \<open>decodeAudioData\<close> and
  \<open>base64ToUint8Array\<close> live in \<open>utils/audio\<close>; what they do enters as the outcome of
  the decode: the duration of the buffer, or \<open>None\<close> when decoding throws, which ends
  the continuation (a decoder that throws before it suspends is a settling that follows
  the message at once). Nothing is checked again after the await: the node is created on the
  context the first half read, started at the cursor as it is now, added to the active
  set, and the cursor is advanced. \<open>node\<close> is the object \<open>ctx.createBufferSource()\<close>
  returns. The cursor is a JavaScript number and \<open>+=\<close> is the addition of doubles: it
  is the parameter \<open>fadd\<close>, of which nothing is assumed.
\<close>

definition resume_audio :: "(real \<Rightarrow> real \<Rightarrow> real) \<Rightarrow> audio_context \<Rightarrow> real option \<Rightarrow> nat \<Rightarrow> manager
                              \<Rightarrow> effect list \<times> manager" where
  "resume_audio fadd ctx outcome node m =
     (case outcome of
        None \<Rightarrow> ([], m)
      | Some dur \<Rightarrow>
          (let sourceNode = \<lparr> node_id = node, buffer_duration = dur \<rparr>
           in ([SourceStart ctx sourceNode (nextStartTimeRef m)],
               m \<lparr> sourcesRef := insert sourceNode (sourcesRef m),
                   nextStartTimeRef := fadd (nextStartTimeRef m) dur \<rparr>)))"

text \<open>A frame whose decode settles before anything else happens: the two halves in a
  row.\<close>

definition handle_audio :: "(real \<Rightarrow> real \<Rightarrow> real) \<Rightarrow> string option \<Rightarrow> real \<Rightarrow> real option \<Rightarrow> nat
                              \<Rightarrow> manager \<Rightarrow> effect list \<times> manager" where
  "handle_audio fadd audio now outcome node m =
     (case begin_audio audio now m of
        (None, m') \<Rightarrow> ([], m')
      | (Some ctx, m') \<Rightarrow> resume_audio fadd ctx outcome node m')"

text \<open>The listener of a source node's \<open>ended\<close> event.\<close>

definition ended :: "source_node \<Rightarrow> manager \<Rightarrow> manager" where
  "ended sourceNode m =
     (let m1 = m \<lparr> sourcesRef := sourcesRef m - {sourceNode} \<rparr>
      in if sourcesRef m1 = {} then m1 \<lparr> isTalking := False \<rparr> else m1)"

text \<open>
  The volume loop. Its closure holds the \<open>isConnected\<close> of the render that called
  \<open>connect\<close>, which is false, so the loop stops exactly when the stream ref is null.
\<close>

definition updateVolume :: "real \<Rightarrow> manager \<Rightarrow> manager" where
  "updateVolume v m = (if streamRef m = None then m else m \<lparr> volume := v \<rparr>)"

text \<open>
  The hook together with the application state its callback works on and the
  continuations of \<open>onmessage\<close> that are suspended at the decoder, each under the number
  of the frame it belongs to.
\<close>

record 'app world =
  mgr :: manager
  app :: 'app
  pending :: "nat \<rightharpoonup> audio_context"

definition initial :: "'app \<Rightarrow> 'app world" where
  "initial a = \<lparr> mgr = idle, app = a, pending = Map.empty \<rparr>"

definition onmessage :: "(TaskToolArgs \<Rightarrow> 'app \<Rightarrow> 'app cb_result) \<Rightarrow> nat \<Rightarrow> session \<Rightarrow> message
                           \<Rightarrow> real \<Rightarrow> 'app world \<Rightarrow> effect list \<times> 'app world" where
  "onmessage cb frame sess msg now w =
     (case dispatch cb sess (case toolCall msg of None \<Rightarrow> [] | Some fcs \<Rightarrow> fcs) (app w) of
        (es, a, c) \<Rightarrow>
          (case c of
             Aborted \<Rightarrow> (es, w \<lparr> app := a \<rparr>)
           | Finished \<Rightarrow>
               (case begin_audio (base64Audio msg) now (mgr w) of
                  (None, m') \<Rightarrow> (es, w \<lparr> mgr := m', app := a \<rparr>)
                | (Some ctx, m') \<Rightarrow>
                    (es, \<lparr> mgr = m', app = a, pending = (pending w)(frame \<mapsto> ctx) \<rparr>))))"

definition decode_settled :: "(real \<Rightarrow> real \<Rightarrow> real) \<Rightarrow> nat \<Rightarrow> real option \<Rightarrow> nat \<Rightarrow> 'app world
                                \<Rightarrow> effect list \<times> 'app world" where
  "decode_settled fadd frame outcome node w =
     (case pending w frame of
        None \<Rightarrow> ([], w)
      | Some ctx \<Rightarrow>
          (case resume_audio fadd ctx outcome node (mgr w) of
             (es, m') \<Rightarrow> (es, w \<lparr> mgr := m', pending := (pending w)(frame := None) \<rparr>)))"

text \<open>
  The events that drive the hook: the two control operations, the four session
  callbacks (a message comes with the number of its frame, the session whose closure
  handles it and the output clock), the settling of a frame's decode with its outcome
  and the fresh source node, the end of a buffer, and a tick of the volume loop.
\<close>

datatype event =
    Connect connect_env
  | Disconnect
  | OnOpen
  | OnMessage nat session message real
  | DecodeSettled nat "real option" nat
  | OnClose
  | OnError
  | Ended source_node
  | VolumeTick real

definition on_manager :: "(manager \<Rightarrow> effect list \<times> manager) \<Rightarrow> 'app world
                            \<Rightarrow> effect list \<times> 'app world" where
  "on_manager f w = (case f (mgr w) of (es, m') \<Rightarrow> (es, w \<lparr> mgr := m' \<rparr>))"

fun step :: "(TaskToolArgs \<Rightarrow> 'app \<Rightarrow> 'app cb_result) \<Rightarrow> (real \<Rightarrow> real \<Rightarrow> real) \<Rightarrow> event
               \<Rightarrow> 'app world \<Rightarrow> effect list \<times> 'app world" where
  "step cb fadd (Connect env) w = on_manager (connect env) w"
| "step cb fadd Disconnect w = on_manager disconnect w"
| "step cb fadd OnOpen w =
     on_manager (\<lambda>m. ([ConsoleLog ''Live session connected''], m \<lparr> isConnected := True \<rparr>)) w"
| "step cb fadd (OnMessage frame sess msg now) w = onmessage cb frame sess msg now w"
| "step cb fadd (DecodeSettled frame outcome node) w = decode_settled fadd frame outcome node w"
| "step cb fadd OnClose w =
     on_manager (\<lambda>m. case disconnect m of (es, m') \<Rightarrow> (ConsoleLog ''Session closed'' # es, m')) w"
| "step cb fadd OnError w =
     on_manager (\<lambda>m. case disconnect m of (es, m') \<Rightarrow> (ConsoleError ''Session error:'' # es, m')) w"
| "step cb fadd (Ended sourceNode) w = on_manager (\<lambda>m. ([], ended sourceNode m)) w"
| "step cb fadd (VolumeTick v) w = on_manager (\<lambda>m. ([], updateVolume v m)) w"

fun run :: "(TaskToolArgs \<Rightarrow> 'app \<Rightarrow> 'app cb_result) \<Rightarrow> (real \<Rightarrow> real \<Rightarrow> real) \<Rightarrow> event list
              \<Rightarrow> 'app world \<Rightarrow> effect list \<times> 'app world" where
  "run cb fadd [] w = ([], w)"
| "run cb fadd (e # es) w =
     (case step cb fadd e w of (xs, w') \<Rightarrow>
        (case run cb fadd es w' of (ys, w'') \<Rightarrow> (xs @ ys, w'')))"

section \<open>The application callback\<close>

text \<open>
  \<open>handleCreateTask\<close> of \<open>App\<close>, with the results of \<open>crypto.randomUUID()\<close> and
  \<open>Date.now()\<close> as arguments. \<open>x || 'Medium'\<close> takes the default when \<open>x\<close> is undefined
  or the empty string.
\<close>

definition or_default :: "string option \<Rightarrow> string \<Rightarrow> string" where
  "or_default x dflt = (case x of None \<Rightarrow> dflt | Some s \<Rightarrow> if s = [] then dflt else s)"

definition handleCreateTask :: "string \<Rightarrow> int \<Rightarrow> TaskToolArgs \<Rightarrow> Task list \<Rightarrow> Task list" where
  "handleCreateTask uuid now args prev =
     \<lparr> task_id = uuid, task_title = title args, task_date = date args,
       task_time = time args, task_priority = or_default (priority args) ''Medium'',
       task_status = Pending, createdAt = now \<rparr> # prev"

section \<open>Reading the effect log\<close>

text \<open>The tool results sent, the callback invocations, and the calls that name the one
  registered tool, with the result the hook sends for such a call.\<close>

fun is_response :: "effect \<Rightarrow> bool" where
  "is_response (SendToolResponse sess i n r) = True"
| "is_response e = False"

fun is_invocation :: "effect \<Rightarrow> bool" where
  "is_invocation (OnTaskCreated args) = True"
| "is_invocation e = False"

definition createTask_calls :: "function_call list \<Rightarrow> function_call list" where
  "createTask_calls fcs = filter (\<lambda>fc. fc_name fc = ''createTask'') fcs"

definition result_for :: "session \<Rightarrow> function_call \<Rightarrow> effect" where
  "result_for sess fc =
     SendToolResponse sess (fc_id fc) ''createTask'' ''Task created successfully''"

text \<open>The function calls a message carries.\<close>

definition functionCalls :: "message \<Rightarrow> function_call list" where
  "functionCalls msg = (case toolCall msg of None \<Rightarrow> [] | Some fcs \<Rightarrow> fcs)"

text \<open>
  What calling the callback once on each payload of a list, in order, makes of the
  application state; a call that raises is the last.
\<close>

fun callbacks_result :: "(TaskToolArgs \<Rightarrow> 'app \<Rightarrow> 'app cb_result) \<Rightarrow> TaskToolArgs list \<Rightarrow> 'app
                           \<Rightarrow> 'app" where
  "callbacks_result cb [] a = a"
| "callbacks_result cb (args # rest) a =
     (case cb args a of Returned a' \<Rightarrow> callbacks_result cb rest a' | Raised a' \<Rightarrow> a')"

text \<open>The buffers started, in the order of the \<open>start\<close> calls, each with its start time
  and its duration.\<close>

fun scheduled :: "effect list \<Rightarrow> (real \<times> real) list" where
  "scheduled [] = []"
| "scheduled (SourceStart ctx sourceNode t # es) = (t, buffer_duration sourceNode) # scheduled es"
| "scheduled (e # es) = scheduled es"

text \<open>
  No buffer starts before the one started before it has ended, the end being the start
  plus the duration as the cursor's own addition \<open>fadd\<close> computes it.
\<close>

fun no_overlap :: "(real \<Rightarrow> real \<Rightarrow> real) \<Rightarrow> (real \<times> real) list \<Rightarrow> bool" where
  "no_overlap fadd [] = True"
| "no_overlap fadd [b] = True"
| "no_overlap fadd ((s, d) # (s', d') # bs) = (fadd s d \<le> s' \<and> no_overlap fadd ((s', d') # bs))"

fun spaced_from :: "(real \<Rightarrow> real \<Rightarrow> real) \<Rightarrow> real \<Rightarrow> (real \<times> real) list \<Rightarrow> bool" where
  "spaced_from fadd c [] = True"
| "spaced_from fadd c ((s, d) # bs) = (c \<le> s \<and> spaced_from fadd (fadd s d) bs)"

text \<open>The events that leave a session open: everything but \<open>connect\<close>, \<open>disconnect\<close>
  and the two callbacks that call \<open>disconnect\<close>.\<close>

fun session_event :: "event \<Rightarrow> bool" where
  "session_event OnOpen = True"
| "session_event (OnMessage frame sess msg now) = True"
| "session_event (DecodeSettled frame outcome node) = True"
| "session_event (Ended sourceNode) = True"
| "session_event (VolumeTick v) = True"
| "session_event e = False"

text \<open>The events in which no inbound message is handled and no decode settles.\<close>

fun quiet :: "event \<Rightarrow> bool" where
  "quiet (OnMessage frame sess msg now) = False"
| "quiet (DecodeSettled frame outcome node) = False"
| "quiet e = True"

text \<open>
  A sequence of events in which the decode of every frame settles right after the
  message that brought the frame, before any other event: \<open>prompt None\<close> between
  frames, \<open>prompt (Some frame)\<close> when the decode of that frame is awaited. Every
  message is followed by a settling; for a message that suspended no continuation the
  settling does nothing.
\<close>

fun prompt :: "nat option \<Rightarrow> event list \<Rightarrow> bool" where
  "prompt None [] = True"
| "prompt (Some frame) [] = False"
| "prompt None (e # es) =
     (case e of
        OnMessage frame sess msg now \<Rightarrow> prompt (Some frame) es
      | DecodeSettled frame outcome node \<Rightarrow> False
      | _ \<Rightarrow> prompt None es)"
| "prompt (Some frame) (e # es) =
     (case e of
        DecodeSettled frame' outcome node \<Rightarrow> frame' = frame \<and> prompt None es
      | _ \<Rightarrow> False)"

definition cursor :: "'app world \<Rightarrow> real" where
  "cursor w = nextStartTimeRef (mgr w)"

text \<open>The talking flag is set unless the active set is empty.\<close>

definition talking_ok :: "manager \<Rightarrow> bool" where
  "talking_ok m = (sourcesRef m = {} \<or> isTalking m)"

section \<open>Sample inputs\<close>

definition sample_env :: "nat \<Rightarrow> connect_env" where
  "sample_env k = \<lparr> fails_at = None, new_output_ctx = k, new_input_ctx = k + 1,
                    new_stream = k + 2, new_processor = k + 3, new_session = k + 4 \<rparr>"

text \<open>The state after a first \<open>connect\<close> has run and before \<open>onopen\<close> fires, and the
  state once it has fired.\<close>

definition connecting :: manager where
  "connecting = snd (connect (sample_env 10) idle)"

definition open_manager :: manager where
  "open_manager = connecting \<lparr> isConnected := True \<rparr>"

definition open_world :: "Task list world" where
  "open_world = \<lparr> mgr = open_manager, app = [], pending = Map.empty \<rparr>"

text \<open>Payloads, calls and messages.\<close>

definition buy_milk :: TaskToolArgs where
  "buy_milk = \<lparr> title = ''Buy milk'', date = Some ''2025-03-10'', time = None,
                priority = Some ''High'' \<rparr>"

definition call_dentist :: TaskToolArgs where
  "call_dentist = \<lparr> title = ''Call dentist'', date = None, time = None, priority = None \<rparr>"

definition buy_milk_call :: function_call where
  "buy_milk_call = \<lparr> fc_id = ''call-1'', fc_name = ''createTask'', fc_args = buy_milk \<rparr>"

definition dentist_call :: function_call where
  "dentist_call = \<lparr> fc_id = ''call-0'', fc_name = ''createTask'', fc_args = call_dentist \<rparr>"

definition delete_call :: function_call where
  "delete_call = \<lparr> fc_id = ''call-2'', fc_name = ''deleteTask'', fc_args = buy_milk \<rparr>"

definition buy_milk_message :: message where
  "buy_milk_message = \<lparr> toolCall = Some [buy_milk_call], base64Audio = None \<rparr>"

definition two_call_message :: message where
  "two_call_message = \<lparr> toolCall = Some [dentist_call, buy_milk_call], base64Audio = None \<rparr>"

definition audio_message :: "string \<Rightarrow> message" where
  "audio_message s = \<lparr> toolCall = None, base64Audio = Some s \<rparr>"

text \<open>The application's callback, a callback that raises, and one that raises on one
  payload only.\<close>

definition app_callback :: "string \<Rightarrow> int \<Rightarrow> TaskToolArgs \<Rightarrow> Task list \<Rightarrow> Task list cb_result" where
  "app_callback uuid now args ts = Returned (handleCreateTask uuid now args ts)"

definition raising_callback :: "TaskToolArgs \<Rightarrow> Task list \<Rightarrow> Task list cb_result" where
  "raising_callback args ts = Raised ts"

definition picky_callback :: "TaskToolArgs \<Rightarrow> Task list \<Rightarrow> Task list cb_result" where
  "picky_callback args ts =
     (if title args = ''Call dentist'' then Raised ts
      else Returned (handleCreateTask ''u1'' 5 args ts))"

definition sample_uuid :: string where
  "sample_uuid = ''3b241101-e2bb-4255-8caf-4136c566a962''"

definition gym_task :: Task where
  "gym_task = \<lparr> task_id = ''2'', task_title = ''Evening gym session (Today)'',
                task_date = Some ''2025-03-09'', task_time = Some ''6:00 PM'',
                task_priority = ''Medium'', task_status = Completed, createdAt = 1 \<rparr>"

text \<open>An addition that is exact, for values whose sums are doubles, and one that
  rounds every sum down to a multiple of a quarter.\<close>

definition exact_add :: "real \<Rightarrow> real \<Rightarrow> real" where
  "exact_add x y = x + y"

definition coarse_add :: "real \<Rightarrow> real \<Rightarrow> real" where
  "coarse_add x y = of_int \<lfloor>(x + y) * 4\<rfloor> / 4"

text \<open>
  Runs of events. Two frames whose decodes settle one after the other, with a frame
  that fails and the end of the first buffer between them. Two frames of which the
  first has a duration of 11/10. Two frames that arrive
  before either is decoded. A frame that fails, and the events after it. A session that
  is closed while a decode is awaited and followed by a second session. A session
  that is closed with nothing awaited, followed by a second \<open>connect\<close>. A second
  frame that is decoded after the first buffer has ended.
\<close>

definition sample_events :: "event list" where
  "sample_events = [OnMessage 1 14 (audio_message ''AAAA'') 2, DecodeSettled 1 (Some 1) 1,
                    OnMessage 2 14 (audio_message ''!'') 3, DecodeSettled 2 None 2,
                    Ended \<lparr> node_id = 1, buffer_duration = 1 \<rparr>,
                    OnMessage 3 14 (audio_message ''BBBBBBBB'') (7/2), DecodeSettled 3 (Some 2) 3]"

definition rounded_events :: "event list" where
  "rounded_events = [OnMessage 1 14 (audio_message ''AAAA'') 2, DecodeSettled 1 (Some (11/10)) 1,
                     OnMessage 2 14 (audio_message ''BBBBBBBB'') (5/2), DecodeSettled 2 (Some 2) 2]"

definition overlapping_decodes :: "event list" where
  "overlapping_decodes = [OnMessage 1 14 (audio_message ''AAAA'') 2,
                          OnMessage 2 14 (audio_message ''BBBBBBBB'') (5/2),
                          DecodeSettled 1 (Some 1) 1, DecodeSettled 2 (Some 2) 2]"



definition late_decode :: "event list" where
  "late_decode = [Connect (sample_env 10), OnOpen, OnMessage 1 14 (audio_message ''AAAA'') 2,
                  Disconnect, DecodeSettled 1 (Some 1) 1, Connect (sample_env 20), OnOpen]"

definition closed_session :: "event list" where
  "closed_session = [Connect (sample_env 10), OnOpen, OnMessage 1 14 (audio_message ''AAAA'') 2,
                     DecodeSettled 1 (Some 1) 1, Disconnect]"

definition reconnect :: "event list" where
  "reconnect = [Ended \<lparr> node_id = 1, buffer_duration = 1 \<rparr>, Connect (sample_env 20),
                VolumeTick 20]"

definition flag_cleared_early :: "event list" where
  "flag_cleared_early = [Connect (sample_env 10), OnOpen,
                         OnMessage 1 14 (audio_message ''AAAA'') 2, DecodeSettled 1 (Some 1) 1,
                         OnMessage 2 14 (audio_message ''BBBBBBBB'') (5/2),
                         Ended \<lparr> node_id = 1, buffer_duration = 1 \<rparr>,
                         DecodeSettled 2 (Some 2) 2]"

definition speaking :: "event list" where
  "speaking = [Connect (sample_env 10), OnOpen,
               OnMessage 1 14 (audio_message ''AAAA'') 2, DecodeSettled 1 (Some 1) 1,
               OnMessage 2 14 (audio_message ''BBBBBBBB'') (5/2), DecodeSettled 2 (Some 2) 2,
               Ended \<lparr> node_id = 1, buffer_duration = 1 \<rparr>]"

section \<open>Selectors of the composite steps\<close>

lemma on_manager_sel:
  "fst (on_manager f w) = fst (f (mgr w))"
  "mgr (snd (on_manager f w)) = snd (f (mgr w))"
  "app (snd (on_manager f w)) = app w"
  "pending (snd (on_manager f w)) = pending w"
  by (simp_all add: on_manager_def split: prod.splits)

lemma run_Cons_sel:
  "fst (run cb fadd (e # es) w)
     = fst (step cb fadd e w) @ fst (run cb fadd es (snd (step cb fadd e w)))"
  "snd (run cb fadd (e # es) w) = snd (run cb fadd es (snd (step cb fadd e w)))"
  by (simp_all split: prod.splits)

lemma try_steps_Cons_sel:
  "fst (snd (try_steps env (s # ss) m))
     = (if fails_at env = Some s then m else fst (snd (try_steps env ss (snd (perform env s m)))))"
  by (simp split: prod.splits)

section \<open>Teardown\<close>

lemma disconnect_state: "snd (disconnect m) = idle"
  by (simp add: disconnect_def idle_def)


lemma connecting_state:
  "connecting = idle \<lparr> audioContextRef := Some 10, inputContextRef := Some 11,
                       streamRef := Some 12, processorRef := Some 13,
                       sessionPromiseRef := Some 14 \<rparr>"
  by (simp add: connecting_def connect_def connect_steps_def sample_env_def idle_def)

lemma open_manager_state:
  "open_manager = \<lparr> isConnected = True, isTalking = False, volume = 0,
            audioContextRef = Some 10, inputContextRef = Some 11, nextStartTimeRef = 0,
            sourcesRef = {}, sessionPromiseRef = Some 14, processorRef = Some 13,
            streamRef = Some 12 \<rparr>"
  by (simp add: open_manager_def connecting_state idle_def)



section \<open>Connecting\<close>

text \<open>
  C6, as the code has it. \<open>connect\<close> is guarded by \<open>isConnected\<close>, which \<open>onopen\<close> sets:
  whenever \<open>isConnected\<close> is true (the session is open), calling \<open>connect\<close> again creates
  no session, no audio context and no capture pipeline, and leaves the state unchanged.
\<close>

theorem connect_noop_when_connected:
  "isConnected m \<Longrightarrow> connect env m = ([], m)"
  by (simp add: connect_def)

theorem connect_noop_when_connected_witness:
  "isConnected open_manager \<and> connect (sample_env 20) open_manager = ([], open_manager)"
proof -
  have h: "isConnected open_manager" by (simp add: open_manager_def)
  from h connect_noop_when_connected [OF h, of "sample_env 20"] show ?thesis by simp
qed

text \<open>
  The guard does not cover the time between a first \<open>connect\<close> and its \<open>onopen\<close>:
  there a second \<open>connect\<close> builds a second pair of contexts, a second capture pipeline
  and a second session, and overwrites the refs of the first.
\<close>

theorem connect_again_while_connecting:
  "\<not> isConnected connecting
   \<and> sessionPromiseRef connecting = Some 14
   \<and> fst (connect (sample_env 20) connecting)
       = [Acquired NewOutputContext 20, Acquired NewInputContext 21, Acquired GetUserMedia 22,
          Acquired CreateInputNodes 23, Acquired LiveConnect 24]
   \<and> sessionPromiseRef (snd (connect (sample_env 20) connecting)) = Some 24
   \<and> connect (sample_env 20) connecting \<noteq> ([], connecting)"
  by (simp add: connecting_state connect_def connect_steps_def sample_env_def idle_def)

section \<open>Tool dispatch\<close>

lemma dispatch_returns:
  "\<forall>fc \<in> set (createTask_calls fcs). \<forall>s. \<exists>s'. cb (fc_args fc) s = Returned s' \<Longrightarrow>
   snd (snd (dispatch cb sess fcs a)) = Finished
   \<and> filter is_invocation (fst (dispatch cb sess fcs a))
       = map (\<lambda>fc. OnTaskCreated (fc_args fc)) (createTask_calls fcs)
   \<and> filter is_response (fst (dispatch cb sess fcs a))
       = map (result_for sess) (createTask_calls fcs)
   \<and> fst (snd (dispatch cb sess fcs a))
       = callbacks_result cb (map fc_args (createTask_calls fcs)) a"
proof (induction fcs arbitrary: a)
  case Nil
  then show ?case by (simp add: createTask_calls_def)
next
  case (Cons fc fcs)
  show ?case
  proof (cases "fc_name fc = ''createTask''")
    case False
    with Cons show ?thesis by (simp add: createTask_calls_def)
  next
    case True
    with Cons.prems have "\<forall>s. \<exists>s'. cb (fc_args fc) s = Returned s'"
      by (simp add: createTask_calls_def)
    then obtain a' where ret: "cb (fc_args fc) a = Returned a'"
      by blast
    have rest: "\<forall>fc \<in> set (createTask_calls fcs). \<forall>s. \<exists>s'. cb (fc_args fc) s = Returned s'"
      using Cons.prems by (simp add: createTask_calls_def)
    note ih = Cons.IH [OF rest, of a']
    obtain es a'' c where d: "dispatch cb sess fcs a' = (es, a'', c)"
      by (cases "dispatch cb sess fcs a'") auto
    with ih True ret show ?thesis
      by (simp add: createTask_calls_def result_for_def)
  qed
qed

text \<open>The message handler does to the outside world and to the application state what
  the dispatch loop does: the first half of the audio branch has no effect on either.\<close>

lemma onmessage_dispatch:
  "fst (onmessage cb frame sess msg now w) = fst (dispatch cb sess (functionCalls msg) (app w))"
  "app (snd (onmessage cb frame sess msg now w))
     = fst (snd (dispatch cb sess (functionCalls msg) (app w)))"
  by (cases "dispatch cb sess (functionCalls msg) (app w)";
      simp add: onmessage_def functionCalls_def split: prod.splits completion.splits option.splits)+

text \<open>
  A valid call that follows a call on which the callback raises: the callback is not
  entered for it and no result is sent for it.
\<close>

theorem call_after_raise_not_dispatched:
  "functionCalls two_call_message = [dentist_call, buy_milk_call]
   \<and> filter is_invocation (fst (onmessage picky_callback 1 14 two_call_message 2 open_world))
       = [OnTaskCreated call_dentist]
   \<and> filter is_response (fst (onmessage picky_callback 1 14 two_call_message 2 open_world)) = []"
  by (simp add: onmessage_dispatch functionCalls_def two_call_message_def dentist_call_def
      buy_milk_call_def picky_callback_def call_dentist_def)

text \<open>
  C4, as the code has it. When the callback returns normally on the payloads of the
  \<open>createTask\<close> calls of a message, handling the message enters the callback once for
  each such call, with exactly that call's payload and on the application state the call
  before it left, and sends one result carrying that call's id on the session whose
  handler received the message; both in the order of the calls, and nothing more of
  either kind.
\<close>

theorem createTask_round_trip:
  assumes "\<forall>fc \<in> set (createTask_calls (functionCalls msg)). \<forall>s. \<exists>s'. cb (fc_args fc) s = Returned s'"
  shows "filter is_invocation (fst (onmessage cb frame sess msg now w))
           = map (\<lambda>fc. OnTaskCreated (fc_args fc)) (createTask_calls (functionCalls msg))
         \<and> filter is_response (fst (onmessage cb frame sess msg now w))
           = map (result_for sess) (createTask_calls (functionCalls msg))
         \<and> app (snd (onmessage cb frame sess msg now w))
           = callbacks_result cb (map fc_args (createTask_calls (functionCalls msg))) (app w)"
  using dispatch_returns [OF assms, of sess "app w"]
  by (simp add: onmessage_dispatch)

theorem createTask_round_trip_witness:
  "createTask_calls (functionCalls buy_milk_message) = [buy_milk_call]
   \<and> filter is_invocation (fst (onmessage (app_callback ''u1'' 5) 1 14 buy_milk_message 2 open_world))
       = [OnTaskCreated buy_milk]
   \<and> filter is_response (fst (onmessage (app_callback ''u1'' 5) 1 14 buy_milk_message 2 open_world))
       = [SendToolResponse 14 ''call-1'' ''createTask'' ''Task created successfully'']
   \<and> app (snd (onmessage (app_callback ''u1'' 5) 1 14 buy_milk_message 2 open_world))
       = [\<lparr> task_id = ''u1'', task_title = ''Buy milk'', task_date = Some ''2025-03-10'',
            task_time = None, task_priority = ''High'', task_status = Pending, createdAt = 5 \<rparr>]"
proof -
  have h: "\<forall>fc \<in> set (createTask_calls (functionCalls buy_milk_message)).
             \<forall>s. \<exists>s'. app_callback ''u1'' 5 (fc_args fc) s = Returned s'"
    by (simp add: app_callback_def)
  have c: "createTask_calls (functionCalls buy_milk_message) = [buy_milk_call]"
    by (simp add: createTask_calls_def functionCalls_def buy_milk_message_def buy_milk_call_def)
  have v: "fc_args buy_milk_call = buy_milk" "result_for 14 buy_milk_call
             = SendToolResponse 14 ''call-1'' ''createTask'' ''Task created successfully''"
    by (simp_all add: buy_milk_call_def result_for_def)
  have r: "callbacks_result (app_callback ''u1'' 5) [buy_milk] (app open_world)
       = [\<lparr> task_id = ''u1'', task_title = ''Buy milk'', task_date = Some ''2025-03-10'',
            task_time = None, task_priority = ''High'', task_status = Pending, createdAt = 5 \<rparr>]"
    by (simp add: app_callback_def handleCreateTask_def or_default_def buy_milk_def open_world_def)
  from createTask_round_trip [OF h, of 1 14 2 open_world] c v r
  show ?thesis by simp
qed

text \<open>
  A callback that raises: the exception leaves \<open>onmessage\<close> before the result is queued,
  and no result is sent.
\<close>

theorem raising_callback_no_result:
  "filter is_response (fst (onmessage raising_callback 1 14 buy_milk_message 2 open_world)) = []"
  by (simp add: onmessage_def raising_callback_def buy_milk_message_def buy_milk_call_def)

text \<open>
  C2, as the code has it. For a \<open>createTask\<close> call the loop reaches, one result with the
  call's id is sent, ahead of the results of the calls after it, when the callback returns
  normally; when the callback raises, no result is sent for the call.
\<close>

theorem result_iff_callback_returns:
  assumes "fc_name fc = ''createTask''"
  shows "filter is_response (fst (dispatch cb sess (fc # fcs) a)) =
           (case cb (fc_args fc) a of
              Returned a' \<Rightarrow> result_for sess fc # filter is_response (fst (dispatch cb sess fcs a'))
            | Raised a' \<Rightarrow> [])"
  using assms by (simp add: result_for_def split: cb_result.splits prod.splits)

theorem result_iff_callback_returns_witness:
  "fc_name buy_milk_call = ''createTask''
   \<and> filter is_response (fst (dispatch (app_callback ''u1'' 5) 7 [buy_milk_call, buy_milk_call] []))
       = [SendToolResponse 7 ''call-1'' ''createTask'' ''Task created successfully'',
          SendToolResponse 7 ''call-1'' ''createTask'' ''Task created successfully'']
   \<and> filter is_response (fst (dispatch raising_callback 7 [buy_milk_call, buy_milk_call] [])) = []"
proof -
  have h: "fc_name buy_milk_call = ''createTask''" by (simp add: buy_milk_call_def)
  have r: "filter is_response (fst (dispatch (app_callback ''u1'' 5) 7 [buy_milk_call] []))
             = [result_for 7 buy_milk_call]"
    using result_iff_callback_returns [OF h, of "app_callback ''u1'' 5" 7 "[]" "[]"]
    by (simp add: app_callback_def)
  have v: "result_for 7 buy_milk_call
             = SendToolResponse 7 ''call-1'' ''createTask'' ''Task created successfully''"
    by (simp add: result_for_def buy_milk_call_def)
  from h result_iff_callback_returns [OF h, of "app_callback ''u1'' 5" 7 "[buy_milk_call]" "[]"]
    result_iff_callback_returns [OF h, of raising_callback 7 "[buy_milk_call]" "[]"] r v
  show ?thesis
    by (simp add: app_callback_def raising_callback_def handleCreateTask_def)
qed

lemma dispatch_skip:
  "fc_name fc \<noteq> ''createTask'' \<Longrightarrow>
   dispatch cb sess (pre @ fc # post) a = dispatch cb sess (pre @ post) a"
  by (induction pre arbitrary: a) (simp_all split: cb_result.splits)

text \<open>
  C9, as the code has it. A call whose name is not \<open>createTask\<close> is skipped in silence:
  the loop and the handler do for the message exactly what they do for the message
  without that call, so the callback is not entered for it, no result is sent for it,
  nothing is logged, and the calls and the audio around it are handled as usual.
\<close>

theorem unmatched_call_skipped:
  assumes "fc_name fc \<noteq> ''createTask''"
  shows "dispatch cb sess (pre @ fc # post) a = dispatch cb sess (pre @ post) a
         \<and> onmessage cb frame sess (msg \<lparr> toolCall := Some (pre @ fc # post) \<rparr>) now w
             = onmessage cb frame sess (msg \<lparr> toolCall := Some (pre @ post) \<rparr>) now w"
  by (simp add: onmessage_def dispatch_skip [OF assms]
      split: prod.splits completion.splits option.splits)

theorem unmatched_call_skipped_witness:
  "fc_name delete_call \<noteq> ''createTask''
   \<and> dispatch (app_callback ''u1'' 5) 7 [buy_milk_call, delete_call, buy_milk_call] []
       = dispatch (app_callback ''u1'' 5) 7 [buy_milk_call, buy_milk_call] []
   \<and> onmessage (app_callback ''u1'' 5) 1 14
        \<lparr> toolCall = Some [delete_call], base64Audio = Some ''AAAA'' \<rparr> 2 open_world
       = onmessage (app_callback ''u1'' 5) 1 14
        \<lparr> toolCall = Some [], base64Audio = Some ''AAAA'' \<rparr> 2 open_world"
proof -
  have h: "fc_name delete_call \<noteq> ''createTask''" by (simp add: delete_call_def)
  from h unmatched_call_skipped [OF h, of "app_callback ''u1'' 5" 7 "[buy_milk_call]"
      "[buy_milk_call]" "[]"]
    unmatched_call_skipped [OF h, of "app_callback ''u1'' 5" 14 "[]" "[]" "[]" 1
      "\<lparr> toolCall = None, base64Audio = Some ''AAAA'' \<rparr>" 2 open_world]
  show ?thesis by simp
qed

text \<open>
  An unmatched call leaves no trace in the log: there is no \<open>console\<close> call on that
  path.
\<close>

theorem unmatched_call_not_logged:
  "fst (onmessage (app_callback ''u1'' 5) 1 14
          \<lparr> toolCall = Some [delete_call], base64Audio = None \<rparr> 2 open_world) = []"
  by (simp add: onmessage_def delete_call_def begin_audio_def)

section \<open>Playback scheduling\<close>

lemma scheduled_append: "scheduled (xs @ ys) = scheduled xs @ scheduled ys"
  by (induction xs rule: scheduled.induct) simp_all

lemma scheduled_dispatch: "scheduled (fst (dispatch cb sess fcs a)) = []"
proof (induction fcs arbitrary: a)
  case Nil
  then show ?case by simp
next
  case (Cons fc fcs)
  have "scheduled es = []" if "dispatch cb sess fcs a' = (es, a'', c)" for a' es a'' c
    using Cons [of a'] that by simp
  with Cons show ?case
    by (auto split: cb_result.splits prod.splits)
qed

lemma spaced_from_mono: "c \<le> c' \<Longrightarrow> spaced_from fadd c' bs \<Longrightarrow> spaced_from fadd c bs"
  by (cases bs) auto

lemma spaced_no_overlap: "spaced_from fadd c bs \<Longrightarrow> no_overlap fadd bs"
  by (induction fadd bs arbitrary: c rule: no_overlap.induct) auto

lemma spaced_sorted:
  "spaced_from fadd c bs \<Longrightarrow> \<forall>b \<in> set bs. fst b \<le> fadd (fst b) (snd b)
   \<Longrightarrow> sorted (map fst bs) \<and> (\<forall>b \<in> set bs. c \<le> fst b)"
proof (induction bs arbitrary: c)
  case Nil
  then show ?case by simp
next
  case (Cons b bs)
  obtain s d where b: "b = (s, d)" by (cases b)
  from Cons.prems b have cs: "c \<le> s" and sp: "spaced_from fadd (fadd s d) bs"
    and d0: "s \<le> fadd s d" and rest: "\<forall>b \<in> set bs. fst b \<le> fadd (fst b) (snd b)" by auto
  from Cons.IH [OF sp rest] have srt: "sorted (map fst bs)"
    and lb: "\<forall>b \<in> set bs. fadd s d \<le> fst b"
    by auto
  from lb d0 have "\<forall>b \<in> set bs. s \<le> fst b" by fastforce
  with srt cs b show ?case by fastforce
qed

text \<open>What one event that leaves the session open does to the schedule and the cursor:
  it starts nothing and does not lower the cursor, or it starts one buffer at the cursor
  and leaves the cursor at the sum.\<close>

lemma onmessage_cursor:
  "scheduled (fst (onmessage cb frame sess msg now w)) = []
   \<and> cursor w \<le> cursor (snd (onmessage cb frame sess msg now w))"
proof -
  have "scheduled (fst (onmessage cb frame sess msg now w)) = []"
    by (simp add: onmessage_dispatch scheduled_dispatch)
  moreover have "cursor w \<le> cursor (snd (onmessage cb frame sess msg now w))"
    by (cases "dispatch cb sess (case toolCall msg of None \<Rightarrow> [] | Some fcs \<Rightarrow> fcs) (app w)")
       (auto simp: onmessage_def cursor_def begin_audio_def
             split: prod.splits completion.splits option.splits if_splits)
  ultimately show ?thesis by simp
qed

lemma decode_settled_cases:
  "(scheduled (fst (decode_settled fadd frame outcome node w)) = []
      \<and> cursor (snd (decode_settled fadd frame outcome node w)) = cursor w)
   \<or> (\<exists>d. scheduled (fst (decode_settled fadd frame outcome node w)) = [(cursor w, d)]
         \<and> cursor (snd (decode_settled fadd frame outcome node w)) = fadd (cursor w) d)"
  by (auto simp: decode_settled_def resume_audio_def cursor_def Let_def split: option.splits)

lemma step_cases:
  assumes "session_event e"
  shows "(scheduled (fst (step cb fadd e w)) = [] \<and> cursor w \<le> cursor (snd (step cb fadd e w)))
   \<or> (\<exists>d. scheduled (fst (step cb fadd e w)) = [(cursor w, d)]
         \<and> cursor (snd (step cb fadd e w)) = fadd (cursor w) d)"
proof (cases e)
  case (OnMessage frame sess msg now)
  then show ?thesis using onmessage_cursor [of cb frame sess msg now w] by simp
next
  case (DecodeSettled frame outcome node)
  then show ?thesis using decode_settled_cases [of fadd frame outcome node w] by auto
qed (use assms in \<open>simp_all add: on_manager_sel cursor_def ended_def updateVolume_def Let_def\<close>)

lemma run_spaced:
  "\<forall>e \<in> set evs. session_event e \<Longrightarrow>
   spaced_from fadd (cursor w) (scheduled (fst (run cb fadd evs w)))"
proof (induction evs arbitrary: w)
  case Nil
  then show ?case by simp
next
  case (Cons e evs)
  from Cons.prems have e: "session_event e" and rest: "\<forall>e \<in> set evs. session_event e" by auto
  note ih = Cons.IH [OF rest, of "snd (step cb fadd e w)"]
  from step_cases [OF e, of cb fadd w]
  consider "scheduled (fst (step cb fadd e w)) = []" "cursor w \<le> cursor (snd (step cb fadd e w))"
    | d where "scheduled (fst (step cb fadd e w)) = [(cursor w, d)]"
        "cursor (snd (step cb fadd e w)) = fadd (cursor w) d"
    by auto
  then show ?case
  proof cases
    case 1
    with ih show ?thesis
      by (simp only: run_Cons_sel scheduled_append) (auto intro: spaced_from_mono)
  next
    case 2
    with ih show ?thesis
      by (simp only: run_Cons_sel scheduled_append) simp
  qed
qed

lemma sample_run:
  "fst (run (app_callback ''u1'' 5) exact_add sample_events open_world)
     = [SourceStart 10 \<lparr> node_id = 1, buffer_duration = 1 \<rparr> 2,
        SourceStart 10 \<lparr> node_id = 3, buffer_duration = 2 \<rparr> (7/2)]"
  by (simp add: sample_events_def open_world_def open_manager_state audio_message_def
      onmessage_def begin_audio_def decode_settled_def resume_audio_def exact_add_def
      on_manager_def ended_def Let_def)

lemma rounded_run:
  "scheduled (fst (run (app_callback ''u1'' 5) coarse_add rounded_events open_world))
     = [(2, 11/10), (3, 2)]"
  by (simp add: rounded_events_def open_world_def open_manager_state audio_message_def
      onmessage_def begin_audio_def decode_settled_def resume_audio_def coarse_add_def Let_def)

text \<open>Under an addition that rounds, a buffer can start before the exact end of the
  buffer before it, and never before the end as the cursor computed it.\<close>

lemma rounded_schedule:
  "no_overlap coarse_add [(2, 11/10), (3, 2)] \<and> \<not> no_overlap exact_add [(2, 11/10), (3, 2)]"
  by (simp add: coarse_add_def exact_add_def)

text \<open>
  Two frames arrive before either is decoded. The first is handled with the cursor at 0
  and the clock at 2, and its buffer is started at 5/2, where the second frame has left
  the cursor.
\<close>

theorem overlapping_decodes_start_late:
  "nextStartTimeRef (mgr open_world) = 0
   \<and> hd overlapping_decodes = OnMessage 1 14 (audio_message ''AAAA'') 2
   \<and> fst (run (app_callback ''u1'' 5) exact_add overlapping_decodes open_world)
       = [SourceStart 10 \<lparr> node_id = 1, buffer_duration = 1 \<rparr> (5/2),
          SourceStart 10 \<lparr> node_id = 2, buffer_duration = 2 \<rparr> (7/2)]
   \<and> max (nextStartTimeRef (mgr open_world)) 2 \<noteq> 5/2"
  by (simp add: overlapping_decodes_def open_world_def open_manager_state audio_message_def
      onmessage_def begin_audio_def decode_settled_def resume_audio_def exact_add_def Let_def)

text \<open>
  C1, as the code has it. A frame that arrives while an output context is held and whose
  decode settles before any other event is started at the maximum of the cursor and the
  output clock. In general a buffer is started at the cursor as it is when its decode
  settles, and the cursor is then that start time plus the buffer's duration, in the
  cursor's own addition. Over any sequence of events that leaves the session open, in
  the order in which the buffers are started, each buffer starts no earlier than the
  sum so computed for the buffer started before it; and the start times are
  non-decreasing when no such sum is below the start time it was computed from.
\<close>

theorem playback_schedule:
  "(audioContextRef m = Some ctx \<and> d \<noteq> [] \<longrightarrow>
      fst (handle_audio fadd (Some d) now (Some dur) node m)
        = [SourceStart ctx \<lparr> node_id = node, buffer_duration = dur \<rparr> (max (nextStartTimeRef m) now)]
      \<and> nextStartTimeRef (snd (handle_audio fadd (Some d) now (Some dur) node m))
        = fadd (max (nextStartTimeRef m) now) dur)
   \<and> fst (resume_audio fadd ctx (Some dur) node m)
        = [SourceStart ctx \<lparr> node_id = node, buffer_duration = dur \<rparr> (nextStartTimeRef m)]
   \<and> nextStartTimeRef (snd (resume_audio fadd ctx (Some dur) node m))
        = fadd (nextStartTimeRef m) dur
   \<and> (pending w frame = Some ctx \<longrightarrow>
        fst (decode_settled fadd frame (Some dur) node w)
          = [SourceStart ctx \<lparr> node_id = node, buffer_duration = dur \<rparr> (nextStartTimeRef (mgr w))]
        \<and> nextStartTimeRef (mgr (snd (decode_settled fadd frame (Some dur) node w)))
          = fadd (nextStartTimeRef (mgr w)) dur)
   \<and> ((\<forall>e \<in> set evs. session_event e) \<longrightarrow>
        no_overlap fadd (scheduled (fst (run cb fadd evs w))))
   \<and> ((\<forall>e \<in> set evs. session_event e)
        \<and> (\<forall>b \<in> set (scheduled (fst (run cb fadd evs w))). fst b \<le> fadd (fst b) (snd b)) \<longrightarrow>
        sorted (map fst (scheduled (fst (run cb fadd evs w)))))"
proof (intro conjI impI)
  assume "audioContextRef m = Some ctx \<and> d \<noteq> []"
  then show "fst (handle_audio fadd (Some d) now (Some dur) node m)
        = [SourceStart ctx \<lparr> node_id = node, buffer_duration = dur \<rparr> (max (nextStartTimeRef m) now)]"
    and "nextStartTimeRef (snd (handle_audio fadd (Some d) now (Some dur) node m))
        = fadd (max (nextStartTimeRef m) now) dur"
    by (simp_all add: handle_audio_def begin_audio_def resume_audio_def Let_def)
next
  show "fst (resume_audio fadd ctx (Some dur) node m)
        = [SourceStart ctx \<lparr> node_id = node, buffer_duration = dur \<rparr> (nextStartTimeRef m)]"
    and "nextStartTimeRef (snd (resume_audio fadd ctx (Some dur) node m))
        = fadd (nextStartTimeRef m) dur"
    by (simp_all add: resume_audio_def Let_def)
next
  assume "pending w frame = Some ctx"
  then show "fst (decode_settled fadd frame (Some dur) node w)
          = [SourceStart ctx \<lparr> node_id = node, buffer_duration = dur \<rparr> (nextStartTimeRef (mgr w))]"
    and "nextStartTimeRef (mgr (snd (decode_settled fadd frame (Some dur) node w)))
          = fadd (nextStartTimeRef (mgr w)) dur"
    by (simp_all add: decode_settled_def resume_audio_def Let_def)
next
  assume "\<forall>e \<in> set evs. session_event e"
  from run_spaced [OF this, of fadd w cb] show "no_overlap fadd (scheduled (fst (run cb fadd evs w)))"
    by (rule spaced_no_overlap)
next
  assume a: "(\<forall>e \<in> set evs. session_event e)
        \<and> (\<forall>b \<in> set (scheduled (fst (run cb fadd evs w))). fst b \<le> fadd (fst b) (snd b))"
  then have ev: "\<forall>e \<in> set evs. session_event e"
    and nn: "\<forall>b \<in> set (scheduled (fst (run cb fadd evs w))). fst b \<le> fadd (fst b) (snd b)"
    by auto
  from spaced_sorted [OF run_spaced [OF ev, of fadd w cb] nn]
  show "sorted (map fst (scheduled (fst (run cb fadd evs w))))"
    by simp
qed

theorem playback_schedule_witness:
  "fst (handle_audio exact_add (Some ''AAAA'') 2 (Some 1) 1 open_manager)
     = [SourceStart 10 \<lparr> node_id = 1, buffer_duration = 1 \<rparr> 2]
   \<and> nextStartTimeRef (snd (handle_audio exact_add (Some ''AAAA'') 2 (Some 1) 1 open_manager)) = 3
   \<and> list_all session_event sample_events
   \<and> scheduled (fst (run (app_callback ''u1'' 5) exact_add sample_events open_world))
       = [(2, 1), (7/2, 2)]
   \<and> no_overlap exact_add (scheduled (fst (run (app_callback ''u1'' 5) exact_add sample_events open_world)))
   \<and> sorted (map fst (scheduled (fst (run (app_callback ''u1'' 5) exact_add sample_events open_world))))
   \<and> list_all session_event rounded_events
   \<and> scheduled (fst (run (app_callback ''u1'' 5) coarse_add rounded_events open_world))
       = [(2, 11/10), (3, 2)]
   \<and> no_overlap coarse_add (scheduled (fst (run (app_callback ''u1'' 5) coarse_add rounded_events open_world)))"
proof -
  have h1: "audioContextRef open_manager = Some 10 \<and> ''AAAA'' \<noteq> []"
    by (simp add: open_manager_state)
  have h2: "\<forall>e \<in> set sample_events. session_event e"
    by (simp add: sample_events_def)
  have f: "scheduled (fst (run (app_callback ''u1'' 5) exact_add sample_events open_world))
       = [(2, 1), (7/2, 2)]" by (simp add: sample_run)
  have h3: "\<forall>b \<in> set (scheduled (fst (run (app_callback ''u1'' 5) exact_add sample_events open_world))).
              fst b \<le> exact_add (fst b) (snd b)"
    by (simp add: f exact_add_def)
  note main = playback_schedule [where m = open_manager and ctx = 10 and d = "''AAAA''"
      and fadd = exact_add and now = 2 and dur = 1 and node = 1 and evs = sample_events
      and cb = "app_callback ''u1'' 5" and w = open_world]
  from main h1 have a: "fst (handle_audio exact_add (Some ''AAAA'') 2 (Some 1) 1 open_manager)
        = [SourceStart 10 \<lparr> node_id = 1, buffer_duration = 1 \<rparr> (max (nextStartTimeRef open_manager) 2)]
      \<and> nextStartTimeRef (snd (handle_audio exact_add (Some ''AAAA'') 2 (Some 1) 1 open_manager))
        = exact_add (max (nextStartTimeRef open_manager) 2) 1"
    by blast
  from main h2 have b: "no_overlap exact_add (scheduled (fst (run (app_callback ''u1'' 5) exact_add sample_events open_world)))"
    by blast
  from main h2 h3
  have c: "sorted (map fst (scheduled (fst (run (app_callback ''u1'' 5) exact_add sample_events open_world))))"
    by blast
  have d: "nextStartTimeRef open_manager = 0" by (simp add: open_manager_state)
  have e: "list_all session_event sample_events" by (simp add: sample_events_def)
  from a d have a': "fst (handle_audio exact_add (Some ''AAAA'') 2 (Some 1) 1 open_manager)
     = [SourceStart 10 \<lparr> node_id = 1, buffer_duration = 1 \<rparr> 2]
   \<and> nextStartTimeRef (snd (handle_audio exact_add (Some ''AAAA'') 2 (Some 1) 1 open_manager)) = 3"
    by (simp add: exact_add_def)
  have g2: "\<forall>e \<in> set rounded_events. session_event e"
    by (simp add: rounded_events_def)
  have g: "list_all session_event rounded_events" by (simp add: rounded_events_def)
  from playback_schedule [where m = open_manager and ctx = 10 and d = "''AAAA''"
      and fadd = coarse_add and now = 2 and dur = 1 and node = 1 and evs = rounded_events
      and cb = "app_callback ''u1'' 5" and w = open_world] g2
  have r: "no_overlap coarse_add
      (scheduled (fst (run (app_callback ''u1'' 5) coarse_add rounded_events open_world)))"
    by blast
  from a' b c e f g r rounded_run show ?thesis by blast
qed

section \<open>A frame that fails to decode\<close>




section \<open>The cursor when a session opens\<close>

lemma perform_frame:
  "isConnected (snd (perform env s m)) = isConnected m"
  "isTalking (snd (perform env s m)) = isTalking m"
  "sourcesRef (snd (perform env s m)) = sourcesRef m"
  "nextStartTimeRef (snd (perform env s m)) = nextStartTimeRef m"
  by (cases s; simp)+

lemma try_steps_frame:
  "isConnected (fst (snd (try_steps env ss m))) = isConnected m
   \<and> isTalking (fst (snd (try_steps env ss m))) = isTalking m
   \<and> sourcesRef (fst (snd (try_steps env ss m))) = sourcesRef m
   \<and> nextStartTimeRef (fst (snd (try_steps env ss m))) = nextStartTimeRef m"
proof (induction ss arbitrary: m)
  case Nil
  then show ?case by simp
next
  case (Cons s ss)
  show ?case
    unfolding try_steps_Cons_sel by (simp add: Cons.IH perform_frame)
qed

lemma connect_state:
  "snd (connect env m) = m \<or> snd (connect env m) = idle
   \<or> (snd (connect env m) = fst (snd (try_steps env connect_steps m)) \<and> \<not> isConnected m)"
  using disconnect_state [of "fst (snd (try_steps env connect_steps m))"]
  by (simp add: connect_def case_prod_beta)

lemma connect_cursor_zero:
  "nextStartTimeRef m = 0 \<Longrightarrow> nextStartTimeRef (snd (connect env m)) = 0"
  using connect_state [of env m] try_steps_frame [of env connect_steps m]
  by (auto simp: idle_def)

lemma step_quiet_cursor:
  assumes "quiet e" and "cursor w = 0"
  shows "cursor (snd (step cb fadd e w)) = 0"
proof (cases e)
  case (Connect env)
  with assms connect_cursor_zero [of "mgr w" env] show ?thesis
    by (simp add: on_manager_sel cursor_def)
qed (use assms in \<open>auto simp: on_manager_sel cursor_def disconnect_state idle_def
      ended_def updateVolume_def Let_def case_prod_beta\<close>)

lemma run_quiet_cursor:
  "\<forall>e \<in> set evs. quiet e \<Longrightarrow> cursor w = 0 \<Longrightarrow> cursor (snd (run cb fadd evs w)) = 0"
proof (induction evs arbitrary: w)
  case Nil
  then show ?case by simp
next
  case (Cons e evs)
  from Cons.prems have "cursor (snd (step cb fadd e w)) = 0"
    by (intro step_quiet_cursor) simp_all
  with Cons show ?case by (simp only: run_Cons_sel) simp
qed

lemma late_decode_state:
  "mgr (snd (run (app_callback ''u1'' 5) exact_add late_decode (initial [])))
     = \<lparr> isConnected = True, isTalking = False, volume = 0,
         audioContextRef = Some 20, inputContextRef = Some 21, nextStartTimeRef = 1,
         sourcesRef = {\<lparr> node_id = 1, buffer_duration = 1 \<rparr>},
         sessionPromiseRef = Some 24, processorRef = Some 23, streamRef = Some 22 \<rparr>"
  by (simp add: late_decode_def initial_def idle_def connect_def connect_steps_def sample_env_def
      on_manager_def onmessage_def begin_audio_def decode_settled_def resume_audio_def
      audio_message_def exact_add_def disconnect_def release_def Let_def)

lemma closed_session_state:
  "mgr (snd (run (app_callback ''u1'' 5) exact_add closed_session (initial []))) = idle"
  by (simp add: closed_session_def initial_def idle_def connect_def connect_steps_def
      sample_env_def on_manager_def onmessage_def begin_audio_def decode_settled_def
      resume_audio_def audio_message_def exact_add_def disconnect_def release_def Let_def)

lemma reconnect_state:
  "mgr (snd (run (app_callback ''u1'' 5) exact_add reconnect
          (snd (run (app_callback ''u1'' 5) exact_add closed_session (initial [])))))
     = idle \<lparr> audioContextRef := Some 20, inputContextRef := Some 21,
              streamRef := Some 22, processorRef := Some 23, sessionPromiseRef := Some 24,
              volume := 20 \<rparr>"
  by (simp only: reconnect_def run_Cons_sel run.simps(1) step.simps snd_conv on_manager_sel
        closed_session_state)
     (simp add: idle_def connect_def connect_steps_def sample_env_def updateVolume_def
        ended_def Let_def)

text \<open>
  A session is closed while the decode of a frame is awaited. The decode settles after
  \<open>disconnect\<close> has reset the cursor: the buffer is started at 0 and the cursor advanced
  to its duration. The next session opens with the cursor at 1.
\<close>

theorem stale_cursor_at_onopen:
  "last late_decode = OnOpen
   \<and> \<not> isConnected (mgr (snd (run (app_callback ''u1'' 5) exact_add (butlast late_decode) (initial []))))
   \<and> isConnected (mgr (snd (run (app_callback ''u1'' 5) exact_add late_decode (initial []))))
   \<and> nextStartTimeRef (mgr (snd (run (app_callback ''u1'' 5) exact_add late_decode (initial [])))) = 1"
proof -
  have "\<not> isConnected (mgr (snd (run (app_callback ''u1'' 5) exact_add (butlast late_decode) (initial []))))"
    by (simp add: late_decode_def initial_def idle_def connect_def connect_steps_def sample_env_def
      on_manager_def onmessage_def begin_audio_def decode_settled_def resume_audio_def
      audio_message_def exact_add_def disconnect_def release_def Let_def)
  moreover have "last late_decode = OnOpen" by (simp add: late_decode_def)
  ultimately show ?thesis by (simp add: late_decode_state)
qed

text \<open>
  C7, as the code has it. \<open>onopen\<close> does not touch the cursor; \<open>disconnect\<close> resets it.
  Start from the idle state, which is the state at mount and the state after every
  \<open>disconnect\<close>, and let any events happen in which no inbound message is handled and no
  decode settles. When \<open>onopen\<close> then fires, the session is connected with the cursor at
  0, and a frame that is decoded next starts at the output clock.
\<close>

theorem cursor_zero_when_opened:
  assumes "mgr w = idle" and "\<forall>e \<in> set evs. quiet e"
  shows "isConnected (mgr (snd (step cb fadd OnOpen (snd (run cb fadd evs w)))))
    \<and> nextStartTimeRef (mgr (snd (step cb fadd OnOpen (snd (run cb fadd evs w))))) = 0
    \<and> (0 \<le> now \<and> audioContextRef (mgr (snd (run cb fadd evs w))) = Some ctx \<and> d \<noteq> [] \<longrightarrow>
         fst (handle_audio fadd (Some d) now (Some dur) node
                (mgr (snd (step cb fadd OnOpen (snd (run cb fadd evs w))))))
           = [SourceStart ctx \<lparr> node_id = node, buffer_duration = dur \<rparr> now])"
proof -
  from assms(1) have "cursor w = 0" by (simp add: cursor_def idle_def)
  from run_quiet_cursor [OF assms(2) this, of cb fadd]
  have z: "nextStartTimeRef (mgr (snd (run cb fadd evs w))) = 0"
    by (simp add: cursor_def)
  then show ?thesis
    by (simp add: on_manager_sel handle_audio_def begin_audio_def resume_audio_def Let_def max_def)
qed

theorem cursor_zero_when_opened_witness:
  "mgr (snd (run (app_callback ''u1'' 5) exact_add closed_session (initial []))) = idle
   \<and> list_all quiet reconnect
   \<and> isConnected (mgr (snd (step (app_callback ''u1'' 5) exact_add OnOpen
        (snd (run (app_callback ''u1'' 5) exact_add reconnect
          (snd (run (app_callback ''u1'' 5) exact_add closed_session (initial []))))))))
   \<and> nextStartTimeRef (mgr (snd (step (app_callback ''u1'' 5) exact_add OnOpen
        (snd (run (app_callback ''u1'' 5) exact_add reconnect
          (snd (run (app_callback ''u1'' 5) exact_add closed_session (initial [])))))))) = 0
   \<and> fst (handle_audio exact_add (Some ''AAAA'') 40 (Some 1) 5
            (mgr (snd (step (app_callback ''u1'' 5) exact_add OnOpen
              (snd (run (app_callback ''u1'' 5) exact_add reconnect
                (snd (run (app_callback ''u1'' 5) exact_add closed_session (initial [])))))))))
       = [SourceStart 20 \<lparr> node_id = 5, buffer_duration = 1 \<rparr> 40]"
proof -
  note h1 = closed_session_state
  have h2: "\<forall>e \<in> set reconnect. quiet e" by (simp add: reconnect_def)
  have h2': "list_all quiet reconnect" by (simp add: reconnect_def)
  have h3: "(0::real) \<le> 40
      \<and> audioContextRef (mgr (snd (run (app_callback ''u1'' 5) exact_add reconnect
          (snd (run (app_callback ''u1'' 5) exact_add closed_session (initial []))))))
          = Some 20
      \<and> ''AAAA'' \<noteq> []"
    by (simp add: reconnect_state)
  from cursor_zero_when_opened [OF h1 h2, of "app_callback ''u1'' 5" exact_add 40 20 "''AAAA''" 1 5]
    h1 h2' h3
  show ?thesis by blast
qed

section \<open>The talking flag\<close>

lemma connect_talking_ok: "talking_ok m \<Longrightarrow> talking_ok (snd (connect env m))"
  using connect_state [of env m] try_steps_frame [of env connect_steps m]
  by (auto simp: talking_ok_def idle_def)

text \<open>The events other than a message and the settling of a decode keep the invariant
  and leave the suspended continuations alone.\<close>

lemma step_quiet_talking_ok:
  assumes "quiet e" and "talking_ok (mgr w)"
  shows "talking_ok (mgr (snd (step cb fadd e w)))
         \<and> pending (snd (step cb fadd e w)) = pending w"
proof (cases e)
  case (Connect env)
  with assms connect_talking_ok [of "mgr w" env] show ?thesis by (simp add: on_manager_sel)
qed (use assms in \<open>auto simp: on_manager_sel talking_ok_def disconnect_state idle_def
      ended_def updateVolume_def Let_def case_prod_beta\<close>)

lemma onmessage_talking_ok:
  assumes "talking_ok (mgr w)"
  shows "talking_ok (mgr (snd (onmessage cb frame sess msg now w)))
         \<and> (\<forall>k. k \<noteq> frame \<longrightarrow> pending (snd (onmessage cb frame sess msg now w)) k = pending w k)
         \<and> (pending (snd (onmessage cb frame sess msg now w)) frame = pending w frame
            \<or> isTalking (mgr (snd (onmessage cb frame sess msg now w))))"
  using assms
  by (cases "dispatch cb sess (case toolCall msg of None \<Rightarrow> [] | Some fcs \<Rightarrow> fcs) (app w)")
     (auto simp: onmessage_def begin_audio_def talking_ok_def
           split: prod.splits completion.splits option.splits if_splits)

lemma decode_settled_talking_ok:
  assumes "talking_ok (mgr w)" and "pending w frame \<noteq> None \<longrightarrow> isTalking (mgr w)"
  shows "talking_ok (mgr (snd (decode_settled fadd frame outcome node w)))
         \<and> (\<forall>k. pending (snd (decode_settled fadd frame outcome node w)) k
                  = (if k = frame then None else pending w k))"
  using assms
  by (auto simp: decode_settled_def resume_audio_def talking_ok_def Let_def
           split: option.splits prod.splits)

lemma prompt_quiet: "quiet e \<Longrightarrow> prompt None (e # es) = prompt None es"
  by (cases e) simp_all

text \<open>
  Where every decode settles at once, the invariant holds between frames, with no
  continuation suspended; while the decode of a frame is awaited, only that frame's
  continuation can be suspended, and if it is the flag is set.
\<close>

lemma run_prompt_talking_ok:
  "prompt st evs \<Longrightarrow> talking_ok (mgr w)
   \<Longrightarrow> (case st of
          None \<Rightarrow> \<forall>k. pending w k = None
        | Some f \<Rightarrow> (\<forall>k. k \<noteq> f \<longrightarrow> pending w k = None) \<and> (pending w f \<noteq> None \<longrightarrow> isTalking (mgr w)))
   \<Longrightarrow> talking_ok (mgr (snd (run cb fadd evs w)))"
proof (induction evs arbitrary: st w)
  case Nil
  then show ?case by simp
next
  case (Cons e evs)
  show ?case
  proof (cases st)
    case None
    note st = None
    with Cons.prems have empty: "\<forall>k. pending w k = None" by simp
    show ?thesis
    proof (cases "quiet e")
      case True
      from Cons.prems(1) have "prompt None (e # evs)" unfolding st .
      with prompt_quiet [OF True, of evs] have p: "prompt None evs" by (simp only:)
      from step_quiet_talking_ok [OF True Cons.prems(2), of cb fadd] empty
      have "talking_ok (mgr (snd (step cb fadd e w)))"
        "case None of None \<Rightarrow> \<forall>k. pending (snd (step cb fadd e w)) k = None
         | Some f \<Rightarrow> (\<forall>k. k \<noteq> f \<longrightarrow> pending (snd (step cb fadd e w)) k = None)
             \<and> (pending (snd (step cb fadd e w)) f \<noteq> None
                  \<longrightarrow> isTalking (mgr (snd (step cb fadd e w))))"
        by simp_all
      from Cons.IH [OF p this] show ?thesis by (simp only: run_Cons_sel)
    next
      case False
      with Cons.prems st obtain frame sess msg now where e: "e = OnMessage frame sess msg now"
        by (cases e) simp_all
      with Cons.prems st have p: "prompt (Some frame) evs" by simp
      note om = onmessage_talking_ok [OF Cons.prems(2), of cb frame sess msg now]
      from om empty
      have inv: "(\<forall>k. k \<noteq> frame \<longrightarrow> pending (snd (onmessage cb frame sess msg now w)) k = None)
          \<and> (pending (snd (onmessage cb frame sess msg now w)) frame \<noteq> None
               \<longrightarrow> isTalking (mgr (snd (onmessage cb frame sess msg now w))))"
        by auto
      from om have "talking_ok (mgr (snd (onmessage cb frame sess msg now w)))" by simp
      from Cons.IH [OF p this] inv e show ?thesis
        by (simp only: run_Cons_sel step.simps) simp
    qed
  next
    case (Some f)
    note st = Some
    with Cons.prems have others: "\<forall>k. k \<noteq> f \<longrightarrow> pending w k = None"
      and flag: "pending w f \<noteq> None \<longrightarrow> isTalking (mgr w)" by simp_all
    from Cons.prems st obtain outcome node where e: "e = DecodeSettled f outcome node"
      and p: "prompt None evs"
      by (cases e) simp_all
    note ds = decode_settled_talking_ok [OF Cons.prems(2) flag, of fadd outcome node]
    from ds others have "\<forall>k. pending (snd (decode_settled fadd f outcome node w)) k = None"
      by simp
    with ds have "talking_ok (mgr (snd (decode_settled fadd f outcome node w)))"
      "case None of None \<Rightarrow> \<forall>k. pending (snd (decode_settled fadd f outcome node w)) k = None
       | Some g \<Rightarrow> (\<forall>k. k \<noteq> g \<longrightarrow> pending (snd (decode_settled fadd f outcome node w)) k = None)
           \<and> (pending (snd (decode_settled fadd f outcome node w)) g \<noteq> None
                \<longrightarrow> isTalking (mgr (snd (decode_settled fadd f outcome node w))))"
      by simp_all
    from Cons.IH [OF p this] e show ?thesis
      by (simp only: run_Cons_sel step.simps)
  qed
qed

lemma flag_cleared_early_state:
  "mgr (snd (run (app_callback ''u1'' 5) exact_add flag_cleared_early (initial [])))
     = \<lparr> isConnected = True, isTalking = False, volume = 0,
         audioContextRef = Some 10, inputContextRef = Some 11, nextStartTimeRef = 5,
         sourcesRef = {\<lparr> node_id = 2, buffer_duration = 2 \<rparr>},
         sessionPromiseRef = Some 14, processorRef = Some 13, streamRef = Some 12 \<rparr>"
  by (simp add: flag_cleared_early_def initial_def idle_def connect_def connect_steps_def
      sample_env_def on_manager_def onmessage_def begin_audio_def decode_settled_def
      resume_audio_def audio_message_def exact_add_def ended_def Let_def)

lemma speaking_state:
  "mgr (snd (run (app_callback ''u1'' 5) exact_add speaking (initial [])))
     = \<lparr> isConnected = True, isTalking = True, volume = 0,
         audioContextRef = Some 10, inputContextRef = Some 11, nextStartTimeRef = 5,
         sourcesRef = {\<lparr> node_id = 2, buffer_duration = 2 \<rparr>},
         sessionPromiseRef = Some 14, processorRef = Some 13, streamRef = Some 12 \<rparr>"
  by (simp add: speaking_def initial_def idle_def connect_def connect_steps_def sample_env_def
      on_manager_def onmessage_def begin_audio_def decode_settled_def resume_audio_def
      audio_message_def exact_add_def ended_def Let_def insert_Diff_if)

text \<open>
  The flag is set when a frame arrives and the buffer joins the active set when its
  decode settles. Between the two, the buffer before it ends and its listener, finding
  the set empty, clears the flag: the second buffer is then in the active set with the
  flag cleared.
\<close>

theorem sound_added_after_flag_cleared:
  "sourcesRef (mgr (snd (run (app_callback ''u1'' 5) exact_add flag_cleared_early (initial []))))
     = {\<lparr> node_id = 2, buffer_duration = 2 \<rparr>}
   \<and> \<not> isTalking (mgr (snd (run (app_callback ''u1'' 5) exact_add flag_cleared_early (initial []))))"
  by (simp add: flag_cleared_early_state)

text \<open>
  C8, as the code has it. The talking flag is set when a frame arrives while an output
  context is held. After any events from the state at mount in which the decode of
  every frame settles before another event is handled, the flag is set whenever the
  active set is not empty. And when the \<open>ended\<close> listener takes the active set from
  non-empty to empty, the flag is cleared by that same listener.
\<close>

theorem talking_while_sounds_active:
  "(audioContextRef m = Some ctx \<and> d \<noteq> [] \<longrightarrow> isTalking (snd (begin_audio (Some d) now m)))
   \<and> (prompt None evs \<and> sourcesRef (mgr (snd (run cb fadd evs (initial a)))) \<noteq> {} \<longrightarrow>
        isTalking (mgr (snd (run cb fadd evs (initial a)))))
   \<and> (sourcesRef m \<noteq> {} \<and> sourcesRef (ended sourceNode m) = {} \<longrightarrow>
        \<not> isTalking (ended sourceNode m))"
proof -
  have t: "talking_ok (mgr (initial a))" by (simp add: initial_def idle_def talking_ok_def)
  have e: "case None of None \<Rightarrow> \<forall>k. pending (initial a) k = None
           | Some f \<Rightarrow> (\<forall>k. k \<noteq> f \<longrightarrow> pending (initial a) k = None)
               \<and> (pending (initial a) f \<noteq> None \<longrightarrow> isTalking (mgr (initial a)))"
    by (simp add: initial_def)
  have "talking_ok (mgr (snd (run cb fadd evs (initial a))))" if "prompt None evs"
    using run_prompt_talking_ok [OF that t e] .
  then show ?thesis
    by (auto simp: talking_ok_def ended_def begin_audio_def Let_def split: if_splits)
qed

theorem talking_while_sounds_active_witness:
  "isTalking (snd (begin_audio (Some ''AAAA'') 2 open_manager))
   \<and> prompt None speaking
   \<and> sourcesRef (mgr (snd (run (app_callback ''u1'' 5) exact_add speaking (initial []))))
     = {\<lparr> node_id = 2, buffer_duration = 2 \<rparr>}
   \<and> isTalking (mgr (snd (run (app_callback ''u1'' 5) exact_add speaking (initial []))))
   \<and> sourcesRef (ended \<lparr> node_id = 2, buffer_duration = 2 \<rparr>
        (mgr (snd (run (app_callback ''u1'' 5) exact_add speaking (initial []))))) = {}
   \<and> \<not> isTalking (ended \<lparr> node_id = 2, buffer_duration = 2 \<rparr>
        (mgr (snd (run (app_callback ''u1'' 5) exact_add speaking (initial [])))))"
proof -
  have h0: "audioContextRef open_manager = Some 10 \<and> ''AAAA'' \<noteq> []"
    by (simp add: open_manager_state)
  have hp: "prompt None speaking" by (simp add: speaking_def)
  have h1: "sourcesRef (mgr (snd (run (app_callback ''u1'' 5) exact_add speaking (initial []))))
     = {\<lparr> node_id = 2, buffer_duration = 2 \<rparr>}"
    by (simp add: speaking_state)
  have h2: "sourcesRef (ended \<lparr> node_id = 2, buffer_duration = 2 \<rparr>
        (mgr (snd (run (app_callback ''u1'' 5) exact_add speaking (initial []))))) = {}"
    by (simp add: speaking_state ended_def Let_def)
  note t = talking_while_sounds_active [of open_manager 10 "''AAAA''" 2 speaking
      "app_callback ''u1'' 5" exact_add "[]"
      "\<lparr> node_id = 2, buffer_duration = 2 \<rparr>"]
  note t2 = talking_while_sounds_active [of
      "mgr (snd (run (app_callback ''u1'' 5) exact_add speaking (initial [])))" 10 "''AAAA''" 2
      speaking "app_callback ''u1'' 5" exact_add "[]"
      "\<lparr> node_id = 2, buffer_duration = 2 \<rparr>"]
  from t h0 have a: "isTalking (snd (begin_audio (Some ''AAAA'') 2 open_manager))" by blast
  from t hp h1 have b: "isTalking (mgr (snd (run (app_callback ''u1'' 5) exact_add speaking (initial []))))"
    by simp
  from t2 h1 h2 have c: "\<not> isTalking (ended \<lparr> node_id = 2, buffer_duration = 2 \<rparr>
        (mgr (snd (run (app_callback ''u1'' 5) exact_add speaking (initial [])))))"
    by simp
  from a hp h1 b h2 c show ?thesis by blast
qed

section \<open>The task list\<close>

text \<open>
  The identifier of a new task is whatever \<open>crypto.randomUUID()\<close> returns; it is not
  compared with the identifiers in the list. When the generator returns a value a second
  time, two tasks carry it.
\<close>

theorem repeated_uuid_repeats_id:
  "map task_id (handleCreateTask sample_uuid 6 call_dentist (handleCreateTask sample_uuid 5 buy_milk []))
     = [sample_uuid, sample_uuid]
   \<and> \<not> distinct (map task_id
         (handleCreateTask sample_uuid 6 call_dentist (handleCreateTask sample_uuid 5 buy_milk [])))"
  by (simp add: handleCreateTask_def)

text \<open>
  C10, as the code has it. The callback puts one new task in front of the list and
  leaves the list behind it as it was. The new task is pending, carries the payload's
  title, date and time, has priority Medium when the payload's priority is absent or
  empty, and has as its identifier the value \<open>crypto.randomUUID()\<close> returned. That
  identifier is new to the list exactly when the generator's value is not yet an
  identifier in it, and identifiers that were pairwise distinct then stay so.
\<close>

theorem handleCreateTask_prepends:
  "\<exists>t. handleCreateTask uuid now args prev = t # prev
       \<and> task_status t = Pending
       \<and> task_id t = uuid
       \<and> task_title t = title args \<and> task_date t = date args \<and> task_time t = time args
       \<and> (priority args = None \<or> priority args = Some [] \<longrightarrow> task_priority t = ''Medium'')
       \<and> ((\<forall>t' \<in> set prev. task_id t' \<noteq> task_id t) \<longleftrightarrow> uuid \<notin> task_id ` set prev)
       \<and> (uuid \<notin> task_id ` set prev \<and> distinct (map task_id prev) \<longrightarrow>
            distinct (map task_id (handleCreateTask uuid now args prev)))"
  by (auto simp: handleCreateTask_def or_default_def)

theorem handleCreateTask_prepends_witness:
  "handleCreateTask ''u1'' 5 call_dentist [gym_task]
     = [\<lparr> task_id = ''u1'', task_title = ''Call dentist'', task_date = None, task_time = None,
          task_priority = ''Medium'', task_status = Pending, createdAt = 5 \<rparr>, gym_task]
   \<and> priority call_dentist = None
   \<and> ''u1'' \<notin> task_id ` set [gym_task]
   \<and> distinct (map task_id (handleCreateTask ''u1'' 5 call_dentist [gym_task]))"
  using handleCreateTask_prepends [of "''u1''" 5 call_dentist "[gym_task]"]
  by (simp add: handleCreateTask_def or_default_def call_dentist_def gym_task_def)

end
